theory Spec2Isabelle
  imports Complex_Main "HOL-Library.Word"
begin

section \<open>Conventions of the embedding\<close>

text \<open>
  The repository is a C++/OpenCL implementation of ICP registration. The host code and the
  serial reference implementations of the kernels (\<^verbatim>\<open>helper_funcs.hpp\<close>) are embedded
  here. Single and double precision values (\<^verbatim>\<open>cl_float\<close>, \<^verbatim>\<open>double\<close>, the template
  parameter \<^verbatim>\<open>T\<close>) are read as real numbers, so every statement below is about the
  arithmetic the code spells out, not about rounding. Buffers (\<^verbatim>\<open>T *\<close>) are lists of
  reals, read with \<open>!\<close> and written with list update; counters of type
  \<^verbatim>\<open>unsigned int\<close> are 32-bit words where their wrap-around can be observed.
\<close>

subsection \<open>Index arithmetic of the serial reference code\<close>

text \<open>
  The loops of \<^verbatim>\<open>helper_funcs.hpp\<close> run a \<^verbatim>\<open>uint32_t\<close> counter and address the
  buffers with \<^verbatim>\<open>i * 8 + k\<close> and \<^verbatim>\<open>i * 4 + k\<close>, computed in 32-bit unsigned
  arithmetic.
\<close>

definition ix8 :: "nat \<Rightarrow> nat \<Rightarrow> nat" where
  "ix8 i k = (i * 8 + k) mod 4294967296"

definition ix4 :: "nat \<Rightarrow> nat \<Rightarrow> nat" where
  "ix4 i k = (i * 4 + k) mod 4294967296"

section \<open>Serial reference implementations (helper\_funcs.hpp)\<close>

subsection \<open>Centroids\<close>






subsection \<open>Covariance bundle\<close>





subsection \<open>Transform applicators\<close>

type_synonym vec3 = "real \<times> real \<times> real"

text \<open>\<^verbatim>\<open>cross_product (a, b, c)\<close> reads the first three entries of \<^verbatim>\<open>a\<close> and \<^verbatim>\<open>b\<close>.\<close>

fun cross_product :: "vec3 \<Rightarrow> vec3 \<Rightarrow> vec3" where
  "cross_product (a0, a1, a2) (b0, b1, b2) =
     (a1 * b2 - a2 * b1, a2 * b0 - a0 * b2, a0 * b1 - a1 * b0)"

text \<open>\<^verbatim>\<open>cpuICPTransformQ (M, tM, D, m)\<close>: \<^verbatim>\<open>D\<close> holds the quaternion (x, y, z, w), the
  translation and, in its last entry, the scale. The input \<^verbatim>\<open>M\<close> and the output
  \<^verbatim>\<open>tM\<close> are distinct buffers.\<close>

definition cpuICPTransformQ_body :: "real list \<Rightarrow> real list \<Rightarrow> nat \<Rightarrow> real list \<Rightarrow> real list" where
  "cpuICPTransformQ_body M D i tM =
     (let q0 = D ! 0; q1 = D ! 1; q2 = D ! 2; q3 = D ! 3;
          t0 = D ! 4; t1 = D ! 5; t2 = D ! 6;
          s = D ! 7;
          p0 = M ! ix8 i 0; p1 = M ! ix8 i 1; p2 = M ! ix8 i 2;
          (c0, c1, c2) = cross_product (q0, q1, q2) (p0, p1, p2);
          qcp0 = c0 + q3 * p0;
          qcp1 = c1 + q3 * p1;
          qcp2 = c2 + q3 * p2;
          (d0, d1, d2) = cross_product (2 * q0, 2 * q1, 2 * q2) (qcp0, qcp1, qcp2);
          tp0 = s * (p0 + d0) + t0;
          tp1 = s * (p1 + d1) + t1;
          tp2 = s * (p2 + d2) + t2;
          tM = tM[ix8 i 0 := tp0];
          tM = tM[ix8 i 1 := tp1];
          tM = tM[ix8 i 2 := tp2];
          tM = tM[ix8 i 3 := M ! ix8 i 3];
          tM = tM[ix8 i 4 := M ! ix8 i 4];
          tM = tM[ix8 i 5 := M ! ix8 i 5];
          tM = tM[ix8 i 6 := M ! ix8 i 6];
          tM = tM[ix8 i 7 := M ! ix8 i 7]
      in tM)"

definition cpuICPTransformQ :: "real list \<Rightarrow> real list \<Rightarrow> real list \<Rightarrow> nat \<Rightarrow> real list" where
  "cpuICPTransformQ M tM D m = fold (cpuICPTransformQ_body M D) [0..<m] tM"

text \<open>\<^verbatim>\<open>std::inner_product (&D[r], &D[r + 4], &M[b], 0.f)\<close>: four products added to the
  initial value from left to right.\<close>

definition inner_product :: "real list \<Rightarrow> nat \<Rightarrow> real list \<Rightarrow> nat \<Rightarrow> real" where
  "inner_product D r M b =
     0 + D ! r * M ! b + D ! (r + 1) * M ! (b + 1) + D ! (r + 2) * M ! (b + 2)
       + D ! (r + 3) * M ! (b + 3)"

text \<open>\<^verbatim>\<open>cpuICPTransformM (M, tM, D, m)\<close>: \<^verbatim>\<open>D\<close> is a 4x4 matrix in row-major order; each
  of its first three rows is multiplied with the first four components of the point.\<close>

definition cpuICPTransformM_body :: "real list \<Rightarrow> real list \<Rightarrow> nat \<Rightarrow> real list \<Rightarrow> real list" where
  "cpuICPTransformM_body M D i tM =
     (let tM = tM[ix8 i 0 := inner_product D 0 M (ix8 i 0)];
          tM = tM[ix8 i 1 := inner_product D 4 M (ix8 i 0)];
          tM = tM[ix8 i 2 := inner_product D 8 M (ix8 i 0)];
          tM = tM[ix8 i 3 := M ! ix8 i 3];
          tM = tM[ix8 i 4 := M ! ix8 i 4];
          tM = tM[ix8 i 5 := M ! ix8 i 5];
          tM = tM[ix8 i 6 := M ! ix8 i 6];
          tM = tM[ix8 i 7 := M ! ix8 i 7]
      in tM)"

definition cpuICPTransformM :: "real list \<Rightarrow> real list \<Rightarrow> real list \<Rightarrow> nat \<Rightarrow> real list" where
  "cpuICPTransformM M tM D m = fold (cpuICPTransformM_body M D) [0..<m] tM"

text \<open>The common shape of the two loop bodies: three computed components, and the other
  five copied from the input point.\<close>

definition point_shape :: "real list \<Rightarrow> (nat \<Rightarrow> real list \<Rightarrow> real list) \<Rightarrow> bool" where
  "point_shape M body \<longleftrightarrow>
     (\<forall>j out. \<exists>A B C. body j out =
        out[ix8 j 0 := A, ix8 j 1 := B, ix8 j 2 := C,
            ix8 j 3 := M ! ix8 j 3, ix8 j 4 := M ! ix8 j 4, ix8 j 5 := M ! ix8 j 5,
            ix8 j 6 := M ! ix8 j 6, ix8 j 7 := M ! ix8 j 7])"

text \<open>
  The matrix form of a transform given as quaternion, translation and scale, as the
  specification words it (``the equivalent 4x4 matrix, in row-major order''): the scaled
  rotation matrix of the quaternion in the upper left block, the translation in the last
  column, and the row (0, 0, 0, 1). This definition does not come from the code; the
  applicators above are compared through it.
\<close>

definition equivalent_matrix :: "real list \<Rightarrow> real list" where
  "equivalent_matrix D =
     (let x = D ! 0; y = D ! 1; z = D ! 2; w = D ! 3; s = D ! 7
      in [s * (1 - 2 * (y * y + z * z)), s * (2 * (x * y - z * w)), s * (2 * (x * z + y * w)), D ! 4,
          s * (2 * (x * y + z * w)), s * (1 - 2 * (x * x + z * z)), s * (2 * (y * z - x * w)), D ! 5,
          s * (2 * (x * z - y * w)), s * (2 * (y * z + x * w)), s * (1 - 2 * (x * x + y * y)), D ! 6,
          0, 0, 0, 1])"

section \<open>Host-side linear algebra\<close>

text \<open>
  \<^verbatim>\<open>Eigen::Vector3f\<close> is a triple, \<^verbatim>\<open>Eigen::Matrix3f\<close> a triple of rows, and
  \<^verbatim>\<open>Eigen::Quaternionf\<close> the quadruple of its coefficients in Eigen's order (x, y, z, w).
\<close>

type_synonym mat3 = "vec3 \<times> vec3 \<times> vec3"
type_synonym quat = "real \<times> real \<times> real \<times> real"

definition Identity3 :: mat3 where
  "Identity3 = ((1, 0, 0), (0, 1, 0), (0, 0, 1))"


fun dot3 :: "vec3 \<Rightarrow> vec3 \<Rightarrow> real" where
  "dot3 (a0, a1, a2) (b0, b1, b2) = a0 * b0 + a1 * b1 + a2 * b2"

fun vec_add :: "vec3 \<Rightarrow> vec3 \<Rightarrow> vec3" where
  "vec_add (a0, a1, a2) (b0, b1, b2) = (a0 + b0, a1 + b1, a2 + b2)"

fun vec_sub :: "vec3 \<Rightarrow> vec3 \<Rightarrow> vec3" where
  "vec_sub (a0, a1, a2) (b0, b1, b2) = (a0 - b0, a1 - b1, a2 - b2)"

fun norm3 :: "vec3 \<Rightarrow> real" where
  "norm3 (a0, a1, a2) = sqrt (a0 * a0 + a1 * a1 + a2 * a2)"

fun transpose3 :: "mat3 \<Rightarrow> mat3" where
  "transpose3 ((a00, a01, a02), (a10, a11, a12), (a20, a21, a22)) =
     ((a00, a10, a20), (a01, a11, a21), (a02, a12, a22))"

fun mat_vec :: "mat3 \<Rightarrow> vec3 \<Rightarrow> vec3" where
  "mat_vec (r0, r1, r2) v = (dot3 r0 v, dot3 r1 v, dot3 r2 v)"

fun mat_mul :: "mat3 \<Rightarrow> mat3 \<Rightarrow> mat3" where
  "mat_mul (r0, r1, r2) B =
     (case transpose3 B of (c0, c1, c2) \<Rightarrow>
        ((dot3 r0 c0, dot3 r0 c1, dot3 r0 c2),
         (dot3 r1 c0, dot3 r1 c1, dot3 r1 c2),
         (dot3 r2 c0, dot3 r2 c1, dot3 r2 c2)))"

fun mat_scale :: "real \<Rightarrow> mat3 \<Rightarrow> mat3" where
  "mat_scale c ((a00, a01, a02), (a10, a11, a12), (a20, a21, a22)) =
     ((c * a00, c * a01, c * a02), (c * a10, c * a11, c * a12), (c * a20, c * a21, c * a22))"

fun determinant :: "mat3 \<Rightarrow> real" where
  "determinant ((a00, a01, a02), (a10, a11, a12), (a20, a21, a22)) =
     a00 * (a11 * a22 - a12 * a21) - a01 * (a10 * a22 - a12 * a20)
       + a02 * (a10 * a21 - a11 * a20)"

fun quat_vec :: "quat \<Rightarrow> vec3" where
  "quat_vec (x, y, z, w) = (x, y, z)"

fun quat_w :: "quat \<Rightarrow> real" where
  "quat_w (x, y, z, w) = w"

fun coeffs :: "quat \<Rightarrow> real list" where
  "coeffs (x, y, z, w) = [x, y, z, w]"

fun homogeneous :: "vec3 \<Rightarrow> real list" where
  "homogeneous (a0, a1, a2) = [a0, a1, a2, 1]"

text \<open>\<^verbatim>\<open>std::atan2 (y, x)\<close> on the reals.\<close>

definition atan2 :: "real \<Rightarrow> real \<Rightarrow> real" where
  "atan2 y x =
     (if 0 < x then arctan (y / x)
      else if x < 0 \<and> 0 \<le> y then arctan (y / x) + pi
      else if x < 0 then arctan (y / x) - pi
      else if 0 < y then pi / 2
      else if y < 0 then - pi / 2
      else 0)"

text \<open>
  The three services of the Eigen library which the step calls are parameters of the
  model: the factors \<^verbatim>\<open>matrixU ()\<close> and \<^verbatim>\<open>matrixV ()\<close> of \<^verbatim>\<open>Eigen::JacobiSVD\<close>, the
  constructor \<^verbatim>\<open>Eigen::Quaternionf (Matrix3f)\<close> and \<^verbatim>\<open>toRotationMatrix ()\<close>. What a
  statement needs from them is written as its hypothesis.
\<close>

record eigen_lib =
  matrixU :: "mat3 \<Rightarrow> mat3"
  matrixV :: "mat3 \<Rightarrow> mat3"
  Quaternionf :: "mat3 \<Rightarrow> quat"
  toRotationMatrix :: "quat \<Rightarrow> mat3"

definition orthogonal :: "mat3 \<Rightarrow> bool" where
  "orthogonal A \<longleftrightarrow>
     mat_mul A (transpose3 A) = Identity3 \<and> mat_mul (transpose3 A) A = Identity3"

definition proper_rotation :: "mat3 \<Rightarrow> bool" where
  "proper_rotation A \<longleftrightarrow> orthogonal A \<and> determinant A = 1"

fun unit_quaternion :: "quat \<Rightarrow> bool" where
  "unit_quaternion (x, y, z, w) \<longleftrightarrow> x * x + y * y + z * z + w * w = 1"

text \<open>A reference instance of the library services: the rotation matrix of a quaternion
  (the matrix of the map \<open>p \<mapsto> p + 2 q \<times> (q \<times> p + w p)\<close> that the quaternion-form applicator
  computes), the conversion back for rotation matrices of trace above \<open>- 1\<close>, and the
  decomposition \<open>U = V = I\<close>, which is a singular value decomposition of every diagonal
  matrix with non-negative entries.\<close>

fun rotation_of_quaternion :: "quat \<Rightarrow> mat3" where
  "rotation_of_quaternion (x, y, z, w) =
     ((1 - 2 * (y * y + z * z), 2 * (x * y - z * w), 2 * (x * z + y * w)),
      (2 * (x * y + z * w), 1 - 2 * (x * x + z * z), 2 * (y * z - x * w)),
      (2 * (x * z - y * w), 2 * (y * z + x * w), 1 - 2 * (x * x + y * y)))"

fun quaternion_of_rotation :: "mat3 \<Rightarrow> quat" where
  "quaternion_of_rotation ((a00, a01, a02), (a10, a11, a12), (a20, a21, a22)) =
     (let w = sqrt (a00 + a11 + a22 + 1) / 2
      in ((a21 - a12) / (4 * w), (a02 - a20) / (4 * w), (a10 - a01) / (4 * w), w))"

definition eigen_ref :: eigen_lib where
  "eigen_ref =
     \<lparr> matrixU = (\<lambda>S. Identity3), matrixV = (\<lambda>S. Identity3),
       Quaternionf = quaternion_of_rotation, toRotationMatrix = rotation_of_quaternion \<rparr>"

section \<open>Command queue\<close>

text \<open>
  The host code acts on the device by enqueueing commands on an in-order queue. The model
  keeps the list of commands enqueued so far. The \<^verbatim>\<open>run\<close> of a member stage of the
  pipeline is one command; its kernels are not part of the sources.
\<close>

datatype stage =
  Reps | RBCConstruct | Transform | RBCSearch bool | Weights | Means | Devs | MatrixS | PowMethod

datatype command =
  EnqueueMapBuffer string
  | EnqueueUnmapMemObject string
  | EnqueueNDRangeKernel string "nat \<times> nat" "nat \<times> nat"
  | EnqueueWriteBuffer string "real list"
  | Run stage
  | Finish


datatype Staging = Staging_NONE | Staging_I | Staging_O | Staging_IO


section \<open>Reduce (algorithms.cpp)\<close>








section \<open>ICPStep (algorithms.cpp)\<close>

datatype ICPStepConfigT = EIGEN | POWER_METHOD

datatype ICPStepConfigW = REGULAR | WEIGHTED

text \<open>
  What the host reads back from the device in one step: the centroid record and the
  covariance bundle (closed-form strategy) or the incremental transform computed by the
  power-method kernel. The kernels are not part of the sources; for fixed landmark sets
  their results are a function of the transform buffer \<^verbatim>\<open>D_IO_T\<close>, which is the
  parameter \<open>gpu\<close> of the step.
\<close>

record readback =
  mean :: "real list"
  Sij :: "real list"
  Tk :: "real list"

type_synonym device = "real list \<Rightarrow> readback"

text \<open>
  The members of \<^verbatim>\<open>ICPStep<CR, CW>\<close>. The cumulative estimates \<^verbatim>\<open>R\<close>, \<^verbatim>\<open>q\<close>,
  \<^verbatim>\<open>t\<close>, \<^verbatim>\<open>s\<close> are the fields \<open>cum_R\<close>, \<open>cum_q\<close>, \<open>cum_t\<close>, \<open>cum_s\<close>; the sizes
  \<^verbatim>\<open>m\<close>, \<^verbatim>\<open>nr\<close> and the factors \<^verbatim>\<open>a\<close>, \<^verbatim>\<open>c\<close> are \<open>par_m\<close>, \<open>par_nr\<close>, \<open>par_a\<close>,
  \<open>par_c\<close>.
\<close>

record ICPStep =
  Rk :: mat3
  qk :: quat
  tk :: vec3
  sk :: real
  cum_R :: mat3
  cum_q :: quat
  cum_t :: vec3
  cum_s :: real
  hPtrIOT :: "real list"
  dBufferIOT :: "real list"
  par_m :: nat
  par_nr :: nat
  par_a :: real
  par_c :: real
  step_staging :: Staging
  step_queue :: "command list"



text \<open>The stages that \<^verbatim>\<open>run\<close> launches before it reads back, in the order of the four
  specialisations of the class.\<close>

definition launched :: "ICPStepConfigT \<Rightarrow> ICPStepConfigW \<Rightarrow> bool \<Rightarrow> command list" where
  "launched CR CW config =
     [Run Transform, Run (RBCSearch config)]
     @ (if CW = WEIGHTED then [Run Weights] else [])
     @ [Run Means, Run Devs, Run MatrixS]
     @ (if CR = POWER_METHOD then [Run PowMethod] else [])"

text \<open>The composition that ends \<^verbatim>\<open>run\<close> in all four specialisations: the cumulative
  estimates are updated from the incremental ones, stored in the staging buffer
  (quaternion, homogeneous translation, then the scale over its last entry) and written to
  the device buffer.\<close>

definition compose :: "eigen_lib \<Rightarrow> 'a ICPStep_scheme \<Rightarrow> 'a ICPStep_scheme" where
  "compose lib st =
     (let st = st\<lparr> cum_R := mat_mul (Rk st) (cum_R st) \<rparr>;
          st = st\<lparr> cum_q := Quaternionf lib (cum_R st) \<rparr>;
          st = st\<lparr> cum_t := vec_add (mat_vec (mat_scale (sk st) (Rk st)) (cum_t st)) (tk st) \<rparr>;
          st = st\<lparr> cum_s := sk st * cum_s st \<rparr>;
          st = st\<lparr> hPtrIOT := coeffs (cum_q st) @ homogeneous (cum_t st) \<rparr>;
          st = st\<lparr> hPtrIOT := (hPtrIOT st)[7 := cum_s st] \<rparr>
      in st\<lparr> dBufferIOT := hPtrIOT st,
              step_queue := step_queue st @ [EnqueueWriteBuffer ''dBufferIOT'' (hPtrIOT st)] \<rparr>)"

text \<open>\<^verbatim>\<open>Eigen::Map<Eigen::Matrix3f, Eigen::Unaligned, Eigen::Stride<1, 3> > (Sij)\<close>: the
  first nine entries of the bundle, read row by row.\<close>

definition covariance_matrix :: "real list \<Rightarrow> mat3" where
  "covariance_matrix S =
     ((S ! 0, S ! 1, S ! 2), (S ! 3, S ! 4, S ! 5), (S ! 6, S ! 7, S ! 8))"

text \<open>The closed-form estimate of \<^verbatim>\<open>ICPStep<EIGEN, CW>::run\<close>.\<close>

definition estimate_EIGEN :: "eigen_lib \<Rightarrow> readback \<Rightarrow> 'a ICPStep_scheme \<Rightarrow> 'a ICPStep_scheme" where
  "estimate_EIGEN lib rb st =
     (let st = st\<lparr> sk := sqrt (Sij rb ! 9 / Sij rb ! 10) \<rparr>;
          mf = (mean rb ! 0, mean rb ! 1, mean rb ! 2);
          mm = (mean rb ! 4, mean rb ! 5, mean rb ! 6);
          S = covariance_matrix (Sij rb);
          U = matrixU lib S;
          V = matrixV lib S;
          st = st\<lparr> Rk := mat_mul V (transpose3 U) \<rparr>;
          st = (if determinant (Rk st) < 0
                then (let B = ((1, 0, 0), (0, 1, 0), (0, 0, determinant (Rk st)))
                      in st\<lparr> Rk := mat_mul (mat_mul V B) (transpose3 U) \<rparr>)
                else st);
          st = st\<lparr> qk := Quaternionf lib (Rk st) \<rparr>
      in st\<lparr> tk := vec_sub mf (mat_vec (mat_scale (sk st) (Rk st)) mm) \<rparr>)"

text \<open>The readback of \<^verbatim>\<open>ICPStep<POWER_METHOD, CW>::run\<close>.\<close>

definition estimate_POWER_METHOD ::
  "eigen_lib \<Rightarrow> readback \<Rightarrow> 'a ICPStep_scheme \<Rightarrow> 'a ICPStep_scheme" where
  "estimate_POWER_METHOD lib rb st =
     (let st = st\<lparr> qk := (Tk rb ! 0, Tk rb ! 1, Tk rb ! 2, Tk rb ! 3) \<rparr>;
          st = st\<lparr> Rk := toRotationMatrix lib (qk st) \<rparr>;
          st = st\<lparr> tk := (Tk rb ! 4, Tk rb ! 5, Tk rb ! 6) \<rparr>
      in st\<lparr> sk := Tk rb ! 7 \<rparr>)"

definition ICPStep_run ::
  "ICPStepConfigT \<Rightarrow> ICPStepConfigW \<Rightarrow> eigen_lib \<Rightarrow> device \<Rightarrow> bool \<Rightarrow> 'a ICPStep_scheme
     \<Rightarrow> 'a ICPStep_scheme" where
  "ICPStep_run CR CW lib gpu config st =
     (let rb = gpu (dBufferIOT st);
          st = st\<lparr> step_queue := step_queue st @ launched CR CW config \<rparr>;
          st = (case CR of
                  EIGEN \<Rightarrow> estimate_EIGEN lib rb st
                | POWER_METHOD \<Rightarrow> estimate_POWER_METHOD lib rb st)
      in compose lib st)"

section \<open>ICP: the convergence controller (algorithms.cpp)\<close>

text \<open>
  \<^verbatim>\<open>ICP<CR, CW>\<close> extends \<^verbatim>\<open>ICPStep<CR, CW>\<close> by the iteration counter \<^verbatim>\<open>k\<close> (the
  field \<open>iter_k\<close>), the cap and the two thresholds. The cap is an \<^verbatim>\<open>unsigned int\<close>; the
  counter is compared with it by \<^verbatim>\<open>==\<close> and has the same 32-bit unsigned type here, so
  \<^verbatim>\<open>k++\<close> wraps from \<open>2^32 - 1\<close> to 0.
\<close>

record ICP = ICPStep +
  iter_k :: "32 word"
  max_iterations :: "32 word"
  angle_threshold :: real
  translation_threshold :: real



definition delta_angle :: "ICP \<Rightarrow> real" where
  "delta_angle st = 180 / pi * 2 * atan2 (norm3 (quat_vec (qk st))) (quat_w (qk st))"

definition delta_translation :: "ICP \<Rightarrow> real" where
  "delta_translation st = norm3 (tk st)"






text \<open>The layout of the transform buffers \<^verbatim>\<open>H_IO_T\<close> and \<^verbatim>\<open>D_IO_T\<close> that the class
  documents: the quaternion in the first \<^verbatim>\<open>cl_float4\<close>, the translation in the second,
  with the scale in its last element.\<close>

fun transform_layout :: "quat \<Rightarrow> vec3 \<Rightarrow> real \<Rightarrow> real list" where
  "transform_layout (x, y, z, w) (t0, t1, t2) s = [x, y, z, w, t0, t1, t2, s]"

section \<open>Example sessions\<close>


definition example_session :: ICP where
  "example_session =
     \<lparr> Rk = ((0, 0, 0), (0, 0, 0), (0, 0, 0)), qk = (0, 0, 0, 0), tk = (0, 0, 0), sk = 0,
       cum_R = ((1, 0, 0), (0, 1, 0), (0, 0, 1)), cum_q = (0, 0, 0, 1), cum_t = (0, 0, 0),
       cum_s = 1, hPtrIOT = [0, 0, 0, 1, 0, 0, 0, 1], dBufferIOT = [0, 0, 0, 1, 0, 0, 0, 1],
       par_m = 16384, par_nr = 256, par_a = 200, par_c = 1 / 1000000,
       step_staging = Staging_NONE,
       step_queue = [EnqueueWriteBuffer ''dBufferIOT'' [0, 0, 0, 1, 0, 0, 0, 1]],
       iter_k = 0, max_iterations = 40, angle_threshold = 1 / 1000,
       translation_threshold = 1 / 100 \<rparr>"


definition scaled_device :: device where
  "scaled_device b =
     \<lparr> mean = [6, 2, 3, 0, 1, 2, 3, 0], Sij = [1, 0, 0, 0, 1, 0, 0, 0, 1, 12, 3],
       Tk = [0, 0, 1, 0, 5, 0, 0, 2] \<rparr>"


definition degenerate_device :: device where
  "degenerate_device b =
     \<lparr> mean = [1, 2, 3, 0, 7, 7, 7, 0], Sij = [0, 0, 0, 0, 0, 0, 0, 0, 0, 0, 3],
       Tk = [0, 0, 0, 1, 0, 0, 0, 0] \<rparr>"




section \<open>Evaluation of the embedding on concrete buffers\<close>

lemma list_update_Cons_numeral:
  "(x # xs)[numeral n := y] = x # xs[pred_numeral n := y]"
  by (simp add: numeral_eq_Suc)

lemma replicate_numeral_Cons:
  "replicate (numeral n) x = x # replicate (pred_numeral n) x"
  by (simp add: numeral_eq_Suc)

lemmas eval_list = upt_conv_Cons list_update_Cons_numeral replicate_numeral_Cons ix8_def ix4_def

lemma ix8_alt:
  assumes "k < 8"
  shows "ix8 i k = 8 * (i mod 536870912) + k"
proof -
  have "i mod 536870912 < 536870912"
    by simp
  with assms have b: "8 * (i mod 536870912) + k < 4294967296"
    by linarith
  have "(i * 8) mod 4294967296 = 8 * (i mod 536870912)"
    using mult_mod_right [of 8 i 536870912] by (simp add: mult.commute)
  then have "(i * 8 + k) mod 4294967296 = (8 * (i mod 536870912) + k) mod 4294967296"
    by (metis mod_add_left_eq)
  with b show ?thesis
    by (simp add: ix8_def)
qed

lemma ix8_offset: "k < 8 \<Longrightarrow> ix8 i 0 + k = ix8 i k"
  by (simp add: ix8_alt)

lemma ix8_mod8: "k < 8 \<Longrightarrow> ix8 i k mod 8 = k"
  by (simp add: ix8_alt)

lemma ix8_le: "ix8 i k \<le> i * 8 + k"
  unfolding ix8_def by simp

lemma inner_product_ix8:
  "inner_product D r M (ix8 i 0) =
     0 + D ! r * M ! ix8 i 0 + D ! (r + 1) * M ! ix8 i 1 + D ! (r + 2) * M ! ix8 i 2
       + D ! (r + 3) * M ! ix8 i 3"
  unfolding inner_product_def
  using ix8_offset [of 1 i] ix8_offset [of 2 i] ix8_offset [of 3 i] by simp

lemma transform_bodies_agree:
  assumes "M ! ix8 i 3 = 1"
  shows "cpuICPTransformM_body M (equivalent_matrix D) i tM = cpuICPTransformQ_body M D i tM"
  using assms
  by (simp add: cpuICPTransformM_body_def cpuICPTransformQ_body_def Let_def inner_product_ix8 equivalent_matrix_def algebra_simps)


lemma fold_upt_cong:
  assumes "\<And>j s. j < n \<Longrightarrow> f j s = g j s"
  shows "fold f [0..<n] a = fold g [0..<n] a"
  by (rule fold_cong) (use assms in auto)

section \<open>Weighted and regular paths\<close>








section \<open>Transform applicators: the two forms\<close>

lemma Q_example:
  "cpuICPTransformQ [1, 0, 0, 0, 0, 0, 0, 0] [0, 0, 0, 0, 0, 0, 0, 0] [0, 0, 0, 1, 1, 0, 0, 1] 1
     = [2, 0, 0, 0, 0, 0, 0, 0]"
  by (simp add: cpuICPTransformQ_def cpuICPTransformQ_body_def eval_list)

lemma M_example:
  "cpuICPTransformM [1, 0, 0, 0, 0, 0, 0, 0] [0, 0, 0, 0, 0, 0, 0, 0]
       (equivalent_matrix [0, 0, 0, 1, 1, 0, 0, 1]) 1
     = [1, 0, 0, 0, 0, 0, 0, 0]"
  by (simp add: cpuICPTransformM_def cpuICPTransformM_body_def inner_product_def
      equivalent_matrix_def eval_list)

text \<open>
  C7 (as the code has it). Transform round-trip: for every point set whose points carry 1 in
  their fourth (homogeneous) component, and every transform given as quaternion,
  translation and scale, the matrix-form applicator with the equivalent 4x4 row-major
  matrix and the quaternion-form applicator produce the same output buffer. The matrix
  form multiplies the translation column by the fourth component of the point, the
  quaternion form adds the translation as it is. The equality is exact in real arithmetic
  and needs no unit quaternion.
\<close>

theorem transform_round_trip:
  assumes "\<forall>i<m. M ! ix8 i 3 = 1"
  shows "cpuICPTransformM M tM (equivalent_matrix D) m = cpuICPTransformQ M tM D m"
proof -
  have "cpuICPTransformM_body M (equivalent_matrix D) i s = cpuICPTransformQ_body M D i s"
    if "i < m" for i s
    using that assms by (simp add: transform_bodies_agree)
  then show ?thesis
    unfolding cpuICPTransformM_def cpuICPTransformQ_def by (rule fold_upt_cong)
qed

theorem transform_round_trip_witness:
  "cpuICPTransformM [1, 2, 3, 1, 9, 8, 7, 6] [0, 0, 0, 0, 0, 0, 0, 0]
       (equivalent_matrix [0, 0, 1, 0, 5, 0, 0, 2]) 1
     = cpuICPTransformQ [1, 2, 3, 1, 9, 8, 7, 6] [0, 0, 0, 0, 0, 0, 0, 0] [0, 0, 1, 0, 5, 0, 0, 2] 1
   \<and> cpuICPTransformQ [1, 2, 3, 1, 9, 8, 7, 6] [0, 0, 0, 0, 0, 0, 0, 0] [0, 0, 1, 0, 5, 0, 0, 2] 1
     = [3, -4, 6, 1, 9, 8, 7, 6]"
proof -
  have h: "\<forall>i<1. [1, 2, 3, 1, 9, 8, 7, 6 :: real] ! ix8 i 3 = 1"
    by (simp add: ix8_def)
  have v: "cpuICPTransformQ [1, 2, 3, 1, 9, 8, 7, 6] [0, 0, 0, 0, 0, 0, 0, 0]
      [0, 0, 1, 0, 5, 0, 0, 2] 1 = [3, -4, 6, 1, 9, 8, 7, 6]"
    by (simp add: cpuICPTransformQ_def cpuICPTransformQ_body_def eval_list)
  show ?thesis
    using transform_round_trip [OF h] v by simp
qed

text \<open>The two applicators differ on a point whose fourth component is 0: for the identity
  rotation, translation (1, 0, 0) and scale 1, the quaternion form moves (1, 0, 0) to
  (2, 0, 0), the matrix form leaves it where it is.\<close>

theorem transform_round_trip_counterexample:
  "cpuICPTransformQ [1, 0, 0, 0, 0, 0, 0, 0] [0, 0, 0, 0, 0, 0, 0, 0] [0, 0, 0, 1, 1, 0, 0, 1] 1
     \<noteq> cpuICPTransformM [1, 0, 0, 0, 0, 0, 0, 0] [0, 0, 0, 0, 0, 0, 0, 0]
         (equivalent_matrix [0, 0, 0, 1, 1, 0, 0, 1]) 1"
  unfolding Q_example M_example by simp

section \<open>Transform applicators: what they leave unchanged\<close>

lemma block_eq_iff:
  fixes a b k k' :: nat
  assumes "k < 8" "k' < 8"
  shows "8 * a + k = 8 * b + k' \<longleftrightarrow> a = b \<and> k = k'"
  using assms by presburger

lemma ix8_eq_iff:
  assumes "k < 8" "k' < 8"
  shows "ix8 i k = ix8 j k' \<longleftrightarrow> i mod 536870912 = j mod 536870912 \<and> k = k'"
  using assms by (simp only: ix8_alt block_eq_iff)

lemma point_update_nth:
  assumes k: "3 \<le> k" "k < 8"
    and len: "ix8 j 7 < length out" "ix8 i k < length out"
  shows "out[ix8 j 0 := A, ix8 j 1 := B, ix8 j 2 := C,
             ix8 j 3 := M ! ix8 j 3, ix8 j 4 := M ! ix8 j 4, ix8 j 5 := M ! ix8 j 5,
             ix8 j 6 := M ! ix8 j 6, ix8 j 7 := M ! ix8 j 7] ! ix8 i k
         = (if i mod 536870912 = j mod 536870912 then M ! ix8 i k else out ! ix8 i k)"
proof (cases "i mod 536870912 = j mod 536870912")
  case True
  have lens: "ix8 j k' < length out" if "k' < 8" for k'
    using that len(1) by (simp add: ix8_alt)
  from True k have e: "ix8 i k = ix8 j k"
    by (simp only: ix8_alt)
  consider "k = 3" | "k = 4" | "k = 5" | "k = 6" | "k = 7"
    using k by linarith
  then have "out[ix8 j 0 := A, ix8 j 1 := B, ix8 j 2 := C,
             ix8 j 3 := M ! ix8 j 3, ix8 j 4 := M ! ix8 j 4, ix8 j 5 := M ! ix8 j 5,
             ix8 j 6 := M ! ix8 j 6, ix8 j 7 := M ! ix8 j 7] ! ix8 j k =  M ! ix8 j k"
    by cases (simp_all add: nth_list_update lens ix8_eq_iff)
  with True e show ?thesis
    by simp
next
  case False
  with k have "ix8 j k' \<noteq> ix8 i k" if "k' < 8" for k'
    using that by (simp add: ix8_eq_iff)
  with False show ?thesis
    by simp
qed


lemma Q_body_shape: "point_shape M (cpuICPTransformQ_body M D)"
  unfolding point_shape_def cpuICPTransformQ_body_def Let_def
  by (auto split: prod.splits)

lemma M_body_shape: "point_shape M (cpuICPTransformM_body M D)"
  unfolding point_shape_def cpuICPTransformM_body_def Let_def
  by blast

lemma frame_fold:
  assumes shape: "point_shape M body"
    and len: "8 * m \<le> length tM"
    and j: "j \<le> m"
  shows "length (fold body [0..<j] tM) = length tM
       \<and> (\<forall>i<j. \<forall>k. 3 \<le> k \<and> k < 8 \<longrightarrow> fold body [0..<j] tM ! ix8 i k = M ! ix8 i k)"
  using j
proof (induction j)
  case 0
  show ?case by simp
next
  case (Suc j)
  let ?out = "fold body [0..<j] tM"
  from Suc have IH: "length ?out = length tM"
    "\<And>i k. i < j \<Longrightarrow> 3 \<le> k \<Longrightarrow> k < 8 \<Longrightarrow> ?out ! ix8 i k = M ! ix8 i k"
    by simp_all
  from shape obtain A B C where body: "body j ?out =
        ?out[ix8 j 0 := A, ix8 j 1 := B, ix8 j 2 := C,
            ix8 j 3 := M ! ix8 j 3, ix8 j 4 := M ! ix8 j 4, ix8 j 5 := M ! ix8 j 5,
            ix8 j 6 := M ! ix8 j 6, ix8 j 7 := M ! ix8 j 7]"
    unfolding point_shape_def by blast
  have inside: "ix8 i k < length ?out" if "i \<le> j" "k < 8" for i k
  proof -
    have "ix8 i k \<le> i * 8 + k" by (rule ix8_le)
    also have "\<dots> < 8 * m" using that Suc.prems by linarith
    finally show ?thesis using len IH(1) by simp
  qed
  have "body j ?out ! ix8 i k = M ! ix8 i k" if "i < Suc j" "3 \<le> k" "k < 8" for i k
  proof -
    from that have "i \<le> j" by simp
    have "body j ?out ! ix8 i k
        = (if i mod 536870912 = j mod 536870912 then M ! ix8 i k else ?out ! ix8 i k)"
      unfolding body using that(2,3) inside [of j 7] inside [OF \<open>i \<le> j\<close> that(3)]
      by (intro point_update_nth) simp_all
    moreover have "?out ! ix8 i k = M ! ix8 i k" if "i mod 536870912 \<noteq> j mod 536870912"
      using that \<open>i \<le> j\<close> \<open>3 \<le> k\<close> \<open>k < 8\<close> IH(2) [of i k] by (cases "i = j") simp_all
    ultimately show ?thesis by simp
  qed
  moreover have "length (body j ?out) = length tM"
    unfolding body using IH(1) by simp
  ultimately show ?case by simp
qed

text \<open>
  C9. Frame property of the transform applicators: for an output buffer that holds the \<open>m\<close>
  points, both applicators keep the length of the output buffer, and components 3 to 7 of
  every output point (the homogeneous pad and the photometric part) equal the same
  components of the input point, for every input and every transform.
\<close>

theorem transform_frame:
  assumes "8 * m \<le> length tM"
  shows "length (cpuICPTransformQ M tM D m) = length tM
       \<and> length (cpuICPTransformM M tM T m) = length tM
       \<and> (\<forall>i<m. \<forall>k. 3 \<le> k \<and> k < 8 \<longrightarrow>
            cpuICPTransformQ M tM D m ! ix8 i k = M ! ix8 i k
          \<and> cpuICPTransformM M tM T m ! ix8 i k = M ! ix8 i k)"
  using frame_fold [OF Q_body_shape assms order_refl, of M D]
    frame_fold [OF M_body_shape assms order_refl, of M T]
  by (simp add: cpuICPTransformQ_def cpuICPTransformM_def)


theorem transform_frame_witness:
  "cpuICPTransformQ [1, 2, 3, 1, 9, 8, 7, 6] [0, 0, 0, 0, 0, 0, 0, 0] [0, 0, 1, 0, 5, 0, 0, 2] 1 ! 3 = 1
   \<and> cpuICPTransformQ [1, 2, 3, 1, 9, 8, 7, 6] [0, 0, 0, 0, 0, 0, 0, 0] [0, 0, 1, 0, 5, 0, 0, 2] 1 ! 7 = 6
   \<and> cpuICPTransformM [1, 2, 3, 1, 9, 8, 7, 6] [0, 0, 0, 0, 0, 0, 0, 0]
         [2, 0, 0, 5, 0, 2, 0, 0, 0, 0, 2, 0, 0, 0, 0, 1] 1 ! 4 = 9
   \<and> length (cpuICPTransformM [1, 2, 3, 1, 9, 8, 7, 6] [0, 0, 0, 0, 0, 0, 0, 0]
         [2, 0, 0, 5, 0, 2, 0, 0, 0, 0, 2, 0, 0, 0, 0, 1] 1) = 8"
proof -
  have len: "8 * 1 \<le> length [0, 0, 0, 0, 0, 0, 0, 0 :: real]"
    by simp
  have ix: "ix8 0 3 = 3" "ix8 0 4 = 4" "ix8 0 7 = 7"
    by (simp_all add: ix8_def)
  note f = transform_frame [OF len, of "[1, 2, 3, 1, 9, 8, 7, 6]" "[0, 0, 1, 0, 5, 0, 0, 2]"
      "[2, 0, 0, 5, 0, 2, 0, 0, 0, 0, 2, 0, 0, 0, 0, 1]"]
  from f have "cpuICPTransformQ [1, 2, 3, 1, 9, 8, 7, 6] [0, 0, 0, 0, 0, 0, 0, 0]
      [0, 0, 1, 0, 5, 0, 0, 2] 1 ! ix8 0 3 = [1, 2, 3, 1, 9, 8, 7, 6] ! ix8 0 3"
    by simp
  moreover from f have "cpuICPTransformQ [1, 2, 3, 1, 9, 8, 7, 6] [0, 0, 0, 0, 0, 0, 0, 0]
      [0, 0, 1, 0, 5, 0, 0, 2] 1 ! ix8 0 7 = [1, 2, 3, 1, 9, 8, 7, 6] ! ix8 0 7"
    by simp
  moreover from f have "cpuICPTransformM [1, 2, 3, 1, 9, 8, 7, 6] [0, 0, 0, 0, 0, 0, 0, 0]
      [2, 0, 0, 5, 0, 2, 0, 0, 0, 0, 2, 0, 0, 0, 0, 1] 1 ! ix8 0 4
      = [1, 2, 3, 1, 9, 8, 7, 6] ! ix8 0 4"
    by simp
  moreover from f have "length (cpuICPTransformM [1, 2, 3, 1, 9, 8, 7, 6] [0, 0, 0, 0, 0, 0, 0, 0]
      [2, 0, 0, 5, 0, 2, 0, 0, 0, 0, 2, 0, 0, 0, 0, 1] 1) = 8"
    by simp
  ultimately show ?thesis
    by (simp add: ix)
qed

section \<open>The convergence controller\<close>


lemma delta_angle_iter_k [simp]: "delta_angle (st\<lparr> iter_k := x \<rparr>) = delta_angle st"
  by (simp add: delta_angle_def)

lemma delta_translation_iter_k [simp]:
  "delta_translation (st\<lparr> iter_k := x \<rparr>) = delta_translation st"
  by (simp add: delta_translation_def)























section \<open>Rotations\<close>

lemma mat3_exhaust:
  obtains a00 a01 a02 a10 a11 a12 a20 a21 a22 :: real
  where "A = ((a00, a01, a02), (a10, a11, a12), (a20, a21, a22))"
  by (metis surj_pair)

lemma determinant_mat_mul: "determinant (mat_mul A B) = determinant A * determinant B"
proof -
  obtain a00 a01 a02 a10 a11 a12 a20 a21 a22
    where A: "A = ((a00, a01, a02), (a10, a11, a12), (a20, a21, a22))"
    by (rule mat3_exhaust)
  obtain b00 b01 b02 b10 b11 b12 b20 b21 b22
    where B: "B = ((b00, b01, b02), (b10, b11, b12), (b20, b21, b22))"
    by (rule mat3_exhaust)
  show ?thesis
    unfolding A B by (simp add: algebra_simps)
qed

lemma determinant_transpose3: "determinant (transpose3 A) = determinant A"
  by (rule mat3_exhaust [of A]) (simp add: algebra_simps)

lemma transpose3_transpose3: "transpose3 (transpose3 A) = A"
  by (rule mat3_exhaust [of A]) simp

lemma transpose3_mat_mul: "transpose3 (mat_mul A B) = mat_mul (transpose3 B) (transpose3 A)"
  by (rule mat3_exhaust [of A], rule mat3_exhaust [of B]) (simp add: algebra_simps)

lemma mat_mul_assoc: "mat_mul (mat_mul A B) C = mat_mul A (mat_mul B C)"
  by (rule mat3_exhaust [of A], rule mat3_exhaust [of B], rule mat3_exhaust [of C])
    (simp add: algebra_simps)

lemma mat_mul_Identity3: "mat_mul A Identity3 = A" "mat_mul Identity3 A = A"
  by (rule mat3_exhaust [of A], simp add: Identity3_def)+

lemma determinant_Identity3: "determinant Identity3 = 1"
  by (simp add: Identity3_def)

lemma transpose3_Identity3: "transpose3 Identity3 = Identity3"
  by (simp add: Identity3_def)


lemma orthogonal_mat_mul:
  assumes "orthogonal A" "orthogonal B"
  shows "orthogonal (mat_mul A B)"
proof -
  have "mat_mul (mat_mul A B) (transpose3 (mat_mul A B))
      = mat_mul A (mat_mul (mat_mul B (transpose3 B)) (transpose3 A))"
    by (simp add: transpose3_mat_mul mat_mul_assoc)
  also have "\<dots> = Identity3"
    using assms by (simp add: orthogonal_def mat_mul_Identity3)
  finally have 1: "mat_mul (mat_mul A B) (transpose3 (mat_mul A B)) = Identity3" .
  have "mat_mul (transpose3 (mat_mul A B)) (mat_mul A B)
      = mat_mul (transpose3 B) (mat_mul (mat_mul (transpose3 A) A) B)"
    by (simp add: transpose3_mat_mul mat_mul_assoc)
  also have "\<dots> = Identity3"
    using assms by (simp add: orthogonal_def mat_mul_Identity3)
  finally show ?thesis
    using 1 by (simp add: orthogonal_def)
qed

lemma orthogonal_transpose3: "orthogonal A \<Longrightarrow> orthogonal (transpose3 A)"
  by (simp add: orthogonal_def transpose3_transpose3)

lemma orthogonal_determinant:
  assumes "orthogonal A"
  shows "determinant A = 1 \<or> determinant A = - 1"
proof -
  have "determinant (mat_mul A (transpose3 A)) = 1"
    using assms by (simp add: orthogonal_def determinant_Identity3)
  then have "determinant A * determinant A = 1"
    by (simp add: determinant_mat_mul determinant_transpose3)
  then show ?thesis
    by (simp add: square_eq_1_iff)
qed

lemma orthogonal_reflection: "orthogonal ((1, 0, 0), (0, 1, 0), (0, 0, - 1))"
  by (simp add: orthogonal_def Identity3_def)

lemma proper_rotation_mat_mul:
  "proper_rotation A \<Longrightarrow> proper_rotation B \<Longrightarrow> proper_rotation (mat_mul A B)"
  by (simp add: proper_rotation_def orthogonal_mat_mul determinant_mat_mul)

lemma proper_rotation_Identity3: "proper_rotation Identity3"
  by (simp add: proper_rotation_def orthogonal_def Identity3_def)

text \<open>The rotation that the closed-form strategy builds from orthogonal factors.\<close>

lemma closed_form_rotation:
  assumes U: "orthogonal U" and V: "orthogonal V"
  defines "R0 \<equiv> mat_mul V (transpose3 U)"
  shows "proper_rotation
     (if determinant R0 < 0
      then mat_mul (mat_mul V ((1, 0, 0), (0, 1, 0), (0, 0, determinant R0))) (transpose3 U)
      else R0)"
proof -
  have o: "orthogonal R0"
    unfolding R0_def using U V by (simp add: orthogonal_mat_mul orthogonal_transpose3)
  then have d: "determinant R0 = 1 \<or> determinant R0 = - 1"
    by (rule orthogonal_determinant)
  show ?thesis
  proof (cases "determinant R0 < 0")
    case False
    with d o show ?thesis
      by (auto simp: proper_rotation_def)
  next
    case True
    with d have m: "determinant R0 = - 1"
      by auto
    let ?B = "((1, 0, 0), (0, 1, 0), (0, 0, - 1)) :: mat3"
    have "orthogonal (mat_mul (mat_mul V ?B) (transpose3 U))"
      using U V by (intro orthogonal_mat_mul orthogonal_transpose3 orthogonal_reflection)
    moreover have "determinant (mat_mul (mat_mul V ?B) (transpose3 U)) = - determinant R0"
      by (simp add: R0_def determinant_mat_mul)
    ultimately show ?thesis
      using True m by (simp add: proper_rotation_def)
  qed
qed

lemma unit_quaternion_rotation:
  assumes "unit_quaternion q"
  shows "proper_rotation (rotation_of_quaternion q)"
proof -
  obtain x y z w where q: "q = (x, y, z, w)"
    by (metis surj_pair)
  with assms have u: "x * x + y * y + z * z + w * w = 1"
    by simp
  have "mat_mul (rotation_of_quaternion q) (transpose3 (rotation_of_quaternion q)) = Identity3"
    unfolding q Identity3_def using u by (simp; intro conjI; algebra)
  moreover
  have "mat_mul (transpose3 (rotation_of_quaternion q)) (rotation_of_quaternion q) = Identity3"
    unfolding q Identity3_def using u by (simp; intro conjI; algebra)
  moreover have "determinant (rotation_of_quaternion q) = 1"
    unfolding q using u by (simp; algebra)
  ultimately show ?thesis
    by (simp add: proper_rotation_def orthogonal_def)
qed

section \<open>The registration step\<close>

lemma compose_fields:
  "cum_R (compose lib st) = mat_mul (Rk st) (cum_R st)"
  "cum_q (compose lib st) = Quaternionf lib (mat_mul (Rk st) (cum_R st))"
  "cum_t (compose lib st) = vec_add (mat_vec (mat_scale (sk st) (Rk st)) (cum_t st)) (tk st)"
  "cum_s (compose lib st) = sk st * cum_s st"
  "Rk (compose lib st) = Rk st" "qk (compose lib st) = qk st"
  "tk (compose lib st) = tk st" "sk (compose lib st) = sk st"
  by (simp_all add: compose_def Let_def)

lemma compose_buffer:
  "dBufferIOT (compose lib st)
     = transform_layout (cum_q (compose lib st)) (cum_t (compose lib st)) (cum_s (compose lib st))"
proof -
  obtain x y z w where q: "Quaternionf lib (mat_mul (Rk st) (cum_R st)) = (x, y, z, w)"
    by (metis surj_pair)
  obtain t0 t1 t2 where t: "vec_add (mat_vec (mat_scale (sk st) (Rk st)) (cum_t st)) (tk st) = (t0, t1, t2)"
    by (metis surj_pair)
  show ?thesis
    by (simp add: compose_def Let_def q t list_update_Cons_numeral)
qed

lemma estimate_EIGEN_fields:
  "sk (estimate_EIGEN lib rb st) = sqrt (Sij rb ! 9 / Sij rb ! 10)"
  "Rk (estimate_EIGEN lib rb st) =
     (let U = matrixU lib (covariance_matrix (Sij rb)); V = matrixV lib (covariance_matrix (Sij rb));
          R0 = mat_mul V (transpose3 U)
      in if determinant R0 < 0
         then mat_mul (mat_mul V ((1, 0, 0), (0, 1, 0), (0, 0, determinant R0))) (transpose3 U)
         else R0)"
  "qk (estimate_EIGEN lib rb st) = Quaternionf lib (Rk (estimate_EIGEN lib rb st))"
  "tk (estimate_EIGEN lib rb st) =
     vec_sub (mean rb ! 0, mean rb ! 1, mean rb ! 2)
       (mat_vec (mat_scale (sk (estimate_EIGEN lib rb st)) (Rk (estimate_EIGEN lib rb st)))
          (mean rb ! 4, mean rb ! 5, mean rb ! 6))"
  "cum_R (estimate_EIGEN lib rb st) = cum_R st" "cum_t (estimate_EIGEN lib rb st) = cum_t st"
  "cum_s (estimate_EIGEN lib rb st) = cum_s st"
  by (simp_all add: estimate_EIGEN_def covariance_matrix_def Let_def)

lemma estimate_POWER_METHOD_fields:
  "qk (estimate_POWER_METHOD lib rb st) = (Tk rb ! 0, Tk rb ! 1, Tk rb ! 2, Tk rb ! 3)"
  "Rk (estimate_POWER_METHOD lib rb st)
     = toRotationMatrix lib (Tk rb ! 0, Tk rb ! 1, Tk rb ! 2, Tk rb ! 3)"
  "tk (estimate_POWER_METHOD lib rb st) = (Tk rb ! 4, Tk rb ! 5, Tk rb ! 6)"
  "sk (estimate_POWER_METHOD lib rb st) = Tk rb ! 7"
  "cum_R (estimate_POWER_METHOD lib rb st) = cum_R st"
  "cum_t (estimate_POWER_METHOD lib rb st) = cum_t st"
  "cum_s (estimate_POWER_METHOD lib rb st) = cum_s st"
  by (simp_all add: estimate_POWER_METHOD_def Let_def)

lemma ICPStep_run_unfold:
  "ICPStep_run EIGEN CW lib gpu config st
     = compose lib (estimate_EIGEN lib (gpu (dBufferIOT st))
         (st\<lparr> step_queue := step_queue st @ launched EIGEN CW config \<rparr>))"
  "ICPStep_run POWER_METHOD CW lib gpu config st
     = compose lib (estimate_POWER_METHOD lib (gpu (dBufferIOT st))
         (st\<lparr> step_queue := step_queue st @ launched POWER_METHOD CW config \<rparr>))"
  by (simp_all add: ICPStep_run_def Let_def)

lemma ICPStep_run_cumulative:
  "cum_R (ICPStep_run CR CW lib gpu config st)
     = mat_mul (Rk (ICPStep_run CR CW lib gpu config st)) (cum_R st)"
  "cum_t (ICPStep_run CR CW lib gpu config st)
     = vec_add (mat_vec (mat_scale (sk (ICPStep_run CR CW lib gpu config st))
         (Rk (ICPStep_run CR CW lib gpu config st))) (cum_t st))
         (tk (ICPStep_run CR CW lib gpu config st))"
  "cum_s (ICPStep_run CR CW lib gpu config st)
     = sk (ICPStep_run CR CW lib gpu config st) * cum_s st"
  "cum_q (ICPStep_run CR CW lib gpu config st)
     = Quaternionf lib (cum_R (ICPStep_run CR CW lib gpu config st))"
  "dBufferIOT (ICPStep_run CR CW lib gpu config st)
     = transform_layout (cum_q (ICPStep_run CR CW lib gpu config st))
         (cum_t (ICPStep_run CR CW lib gpu config st)) (cum_s (ICPStep_run CR CW lib gpu config st))"
  by (cases CR; simp add: ICPStep_run_unfold compose_fields compose_buffer
      estimate_EIGEN_fields estimate_POWER_METHOD_fields)+










lemma ICPStep_run_EIGEN_estimate:
  "sk (ICPStep_run EIGEN CW lib gpu config st)
     = sqrt (Sij (gpu (dBufferIOT st)) ! 9 / Sij (gpu (dBufferIOT st)) ! 10)"
  "Rk (ICPStep_run EIGEN CW lib gpu config st) =
     (let U = matrixU lib (covariance_matrix (Sij (gpu (dBufferIOT st))));
          V = matrixV lib (covariance_matrix (Sij (gpu (dBufferIOT st))));
          R0 = mat_mul V (transpose3 U)
      in if determinant R0 < 0
         then mat_mul (mat_mul V ((1, 0, 0), (0, 1, 0), (0, 0, determinant R0))) (transpose3 U)
         else R0)"
  "qk (ICPStep_run EIGEN CW lib gpu config st)
     = Quaternionf lib (Rk (ICPStep_run EIGEN CW lib gpu config st))"
  "tk (ICPStep_run EIGEN CW lib gpu config st) =
     vec_sub (mean (gpu (dBufferIOT st)) ! 0, mean (gpu (dBufferIOT st)) ! 1,
              mean (gpu (dBufferIOT st)) ! 2)
       (mat_vec (mat_scale (sk (ICPStep_run EIGEN CW lib gpu config st))
            (Rk (ICPStep_run EIGEN CW lib gpu config st)))
          (mean (gpu (dBufferIOT st)) ! 4, mean (gpu (dBufferIOT st)) ! 5,
           mean (gpu (dBufferIOT st)) ! 6))"
  by (simp_all add: ICPStep_run_unfold compose_fields estimate_EIGEN_fields)

lemma ICPStep_run_EIGEN_rotation:
  assumes "orthogonal (matrixU lib (covariance_matrix (Sij (gpu (dBufferIOT st)))))"
    and "orthogonal (matrixV lib (covariance_matrix (Sij (gpu (dBufferIOT st)))))"
  shows "proper_rotation (Rk (ICPStep_run EIGEN CW lib gpu config st))"
  using closed_form_rotation [OF assms]
  by (simp add: ICPStep_run_EIGEN_estimate Let_def)




lemma ICPStep_run_POWER_METHOD_estimate:
  "Rk (ICPStep_run POWER_METHOD CW lib gpu config st)
     = toRotationMatrix lib (Tk (gpu (dBufferIOT st)) ! 0, Tk (gpu (dBufferIOT st)) ! 1,
         Tk (gpu (dBufferIOT st)) ! 2, Tk (gpu (dBufferIOT st)) ! 3)"
  "sk (ICPStep_run POWER_METHOD CW lib gpu config st) = Tk (gpu (dBufferIOT st)) ! 7"
  by (simp_all add: ICPStep_run_unfold compose_fields estimate_POWER_METHOD_fields)

lemma degenerate_step:
  "cum_s (ICPStep_run EIGEN REGULAR eigen_ref degenerate_device True example_session) = 0"
  by (simp add: ICPStep_run_unfold compose_fields estimate_EIGEN_fields degenerate_device_def
      example_session_def)

lemma example_session_invariant:
  "proper_rotation (cum_R example_session)" "0 < cum_s example_session"
  using proper_rotation_Identity3 by (simp_all add: example_session_def Identity3_def)

text \<open>
  C5 (as the code has it). Cumulative-transform invariant: a step keeps the cumulative \<open>R\<close> a
  proper rotation and the cumulative scale strictly positive whenever its incremental
  transform is a proper rotation with a strictly positive scale: in the closed-form
  strategy when the factors \<open>U\<close> and \<open>V\<close> are orthogonal and the 10th and 11th entries of the
  covariance bundle are positive, in the power-method strategy when the quaternion read back
  is a unit quaternion, the library turns it into its rotation matrix, and the scale read
  back is positive. The cumulative \<open>R\<close> is the product of the incremental rotations; the
  step does not derive it from the cumulative quaternion.
\<close>

theorem cumulative_invariant:
  assumes "proper_rotation (cum_R st)" and "0 < cum_s st"
    and "CR = EIGEN \<Longrightarrow>
      orthogonal (matrixU lib (covariance_matrix (Sij (gpu (dBufferIOT st)))))
      \<and> orthogonal (matrixV lib (covariance_matrix (Sij (gpu (dBufferIOT st)))))
      \<and> 0 < Sij (gpu (dBufferIOT st)) ! 9 \<and> 0 < Sij (gpu (dBufferIOT st)) ! 10"
    and "CR = POWER_METHOD \<Longrightarrow>
      unit_quaternion (Tk (gpu (dBufferIOT st)) ! 0, Tk (gpu (dBufferIOT st)) ! 1,
         Tk (gpu (dBufferIOT st)) ! 2, Tk (gpu (dBufferIOT st)) ! 3)
      \<and> toRotationMatrix lib (Tk (gpu (dBufferIOT st)) ! 0, Tk (gpu (dBufferIOT st)) ! 1,
           Tk (gpu (dBufferIOT st)) ! 2, Tk (gpu (dBufferIOT st)) ! 3)
         = rotation_of_quaternion (Tk (gpu (dBufferIOT st)) ! 0, Tk (gpu (dBufferIOT st)) ! 1,
           Tk (gpu (dBufferIOT st)) ! 2, Tk (gpu (dBufferIOT st)) ! 3)
      \<and> 0 < Tk (gpu (dBufferIOT st)) ! 7"
  shows "proper_rotation (cum_R (ICPStep_run CR CW lib gpu config st))
       \<and> 0 < cum_s (ICPStep_run CR CW lib gpu config st)"
proof -
  have "proper_rotation (Rk (ICPStep_run CR CW lib gpu config st))
      \<and> 0 < sk (ICPStep_run CR CW lib gpu config st)"
  proof (cases CR)
    case EIGEN
    with assms(3) show ?thesis
      by (simp add: ICPStep_run_EIGEN_rotation ICPStep_run_EIGEN_estimate(1))
  next
    case POWER_METHOD
    let ?q = "(Tk (gpu (dBufferIOT st)) ! 0, Tk (gpu (dBufferIOT st)) ! 1,
         Tk (gpu (dBufferIOT st)) ! 2, Tk (gpu (dBufferIOT st)) ! 3)"
    from assms(4) [OF POWER_METHOD] have u: "unit_quaternion ?q"
      and r: "toRotationMatrix lib ?q = rotation_of_quaternion ?q"
      and s: "0 < Tk (gpu (dBufferIOT st)) ! 7"
      by blast+
    have "Rk (ICPStep_run CR CW lib gpu config st) = rotation_of_quaternion ?q"
      unfolding POWER_METHOD ICPStep_run_POWER_METHOD_estimate by (rule r)
    moreover have "proper_rotation (rotation_of_quaternion ?q)"
      using u by (rule unit_quaternion_rotation)
    moreover have "sk (ICPStep_run CR CW lib gpu config st) = Tk (gpu (dBufferIOT st)) ! 7"
      unfolding POWER_METHOD by (rule ICPStep_run_POWER_METHOD_estimate)
    ultimately show ?thesis
      using s by (simp only: simp_thms)
  qed
  with assms(1,2) show ?thesis
    by (simp add: ICPStep_run_cumulative(1,3) proper_rotation_mat_mul)
qed

theorem cumulative_invariant_witness:
  "proper_rotation (cum_R (ICPStep_run EIGEN REGULAR eigen_ref scaled_device True example_session))
   \<and> 0 < cum_s (ICPStep_run EIGEN REGULAR eigen_ref scaled_device True example_session)
   \<and> proper_rotation (cum_R (ICPStep_run POWER_METHOD WEIGHTED eigen_ref scaled_device True
        example_session))
   \<and> 0 < cum_s (ICPStep_run POWER_METHOD WEIGHTED eigen_ref scaled_device True example_session)"
proof -
  have e: "orthogonal (matrixU eigen_ref
        (covariance_matrix (Sij (scaled_device (dBufferIOT example_session)))))
      \<and> orthogonal (matrixV eigen_ref
        (covariance_matrix (Sij (scaled_device (dBufferIOT example_session)))))
      \<and> 0 < Sij (scaled_device (dBufferIOT example_session)) ! 9
      \<and> 0 < Sij (scaled_device (dBufferIOT example_session)) ! 10"
    by (simp add: eigen_ref_def orthogonal_def Identity3_def scaled_device_def)
  have p: "unit_quaternion (Tk (scaled_device (dBufferIOT example_session)) ! 0,
        Tk (scaled_device (dBufferIOT example_session)) ! 1,
        Tk (scaled_device (dBufferIOT example_session)) ! 2,
        Tk (scaled_device (dBufferIOT example_session)) ! 3)
      \<and> toRotationMatrix eigen_ref (Tk (scaled_device (dBufferIOT example_session)) ! 0,
           Tk (scaled_device (dBufferIOT example_session)) ! 1,
           Tk (scaled_device (dBufferIOT example_session)) ! 2,
           Tk (scaled_device (dBufferIOT example_session)) ! 3)
         = rotation_of_quaternion (Tk (scaled_device (dBufferIOT example_session)) ! 0,
           Tk (scaled_device (dBufferIOT example_session)) ! 1,
           Tk (scaled_device (dBufferIOT example_session)) ! 2,
           Tk (scaled_device (dBufferIOT example_session)) ! 3)
      \<and> 0 < Tk (scaled_device (dBufferIOT example_session)) ! 7"
    by (simp add: eigen_ref_def scaled_device_def)
  show ?thesis
    using cumulative_invariant [OF example_session_invariant, of EIGEN eigen_ref scaled_device
        REGULAR True] e
      cumulative_invariant [OF example_session_invariant, of POWER_METHOD eigen_ref scaled_device
        WEIGHTED True] p
    by simp
qed

text \<open>A moving set whose landmarks all coincide has a covariance bundle of zeros with a
  positive 11th entry; the zero matrix has orthogonal factors, the session satisfies the
  invariant, and the step leaves the cumulative scale 0.\<close>

theorem cumulative_invariant_counterexample:
  "proper_rotation (cum_R example_session) \<and> 0 < cum_s example_session
   \<and> orthogonal (matrixU eigen_ref
        (covariance_matrix (Sij (degenerate_device (dBufferIOT example_session)))))
   \<and> orthogonal (matrixV eigen_ref
        (covariance_matrix (Sij (degenerate_device (dBufferIOT example_session)))))
   \<and> \<not> 0 < cum_s (ICPStep_run EIGEN REGULAR eigen_ref degenerate_device True example_session)"
  using example_session_invariant
  by (simp add: degenerate_step) (simp add: eigen_ref_def orthogonal_def Identity3_def)

section \<open>Configuration of the reduction\<close>

















end
